theory Spec2Isabelle
  imports Main "HOL-Library.Option_ord" "HOL-Library.Multiset"
begin

section \<open>Text and values of the runtime\<close>

text \<open>
  Text is a \<^typ>\<open>string\<close>: one \<^typ>\<open>char\<close> for each character of ASCII text, and
  the UTF-8 bytes of any other character (the labels the source writes in Chinese are
  given by their bytes). White space is the white space of the ASCII range, and the case
  mappings are those of the ASCII letters. A nullable value (a missing query parameter,
  a NULL column, an absent JSON field) is an \<^typ>\<open>'a option\<close>.
\<close>

definition is_space :: "char \<Rightarrow> bool" where
  "is_space c = (c \<in> set [CHR 0x09, CHR 0x0A, CHR 0x0B, CHR 0x0C, CHR 0x0D, CHR '' ''])"

definition is_digit :: "char \<Rightarrow> bool" where
  "is_digit c = (c \<in> set ''0123456789'')"

definition trim :: "string \<Rightarrow> string" where
  "trim s = rev (dropWhile is_space (rev (dropWhile is_space s)))"

definition toLowerChar :: "char \<Rightarrow> char" where
  "toLowerChar c =
     (case map_of (zip ''ABCDEFGHIJKLMNOPQRSTUVWXYZ'' ''abcdefghijklmnopqrstuvwxyz'') c of
        Some d \<Rightarrow> d
      | None \<Rightarrow> c)"

definition toUpperChar :: "char \<Rightarrow> char" where
  "toUpperChar c =
     (case map_of (zip ''abcdefghijklmnopqrstuvwxyz'' ''ABCDEFGHIJKLMNOPQRSTUVWXYZ'') c of
        Some d \<Rightarrow> d
      | None \<Rightarrow> c)"

definition toLowerCase :: "string \<Rightarrow> string" where
  "toLowerCase s = map toLowerChar s"

definition toUpperCase :: "string \<Rightarrow> string" where
  "toUpperCase s = map toUpperChar s"

definition startsWith :: "string \<Rightarrow> string \<Rightarrow> bool" where
  "startsWith s p = (take (length p) s = p)"

text \<open>\<open>v || d\<close> on a nullable text: the default replaces null and the empty text.\<close>

definition or_else :: "string option \<Rightarrow> string \<Rightarrow> string" where
  "or_else v d = (case v of None \<Rightarrow> d | Some s \<Rightarrow> if s = [] then d else s)"

definition truthy_text :: "string option \<Rightarrow> bool" where
  "truthy_text v = (case v of None \<Rightarrow> False | Some s \<Rightarrow> s \<noteq> [])"

text \<open>The value of a run of decimal digits.\<close>

definition digit_value :: "char \<Rightarrow> nat" where
  "digit_value c = (case map_of (zip ''0123456789'' [0, 1, 2, 3, 4, 5, 6, 7, 8, 9]) c of
                      Some d \<Rightarrow> d
                    | None \<Rightarrow> 0)"

definition digits_value :: "string \<Rightarrow> nat" where
  "digits_value ds = foldl (\<lambda>a c. 10 * a + digit_value c) 0 ds"

text \<open>
  \<open>parseInt(s, 10)\<close>: leading white space is skipped, a sign is read, then the longest
  run of digits; with no digit the result is NaN, here \<open>None\<close>.
\<close>

definition parseInt :: "string \<Rightarrow> int option" where
  "parseInt s =
     (let s1 = dropWhile is_space s;
          neg = (s1 \<noteq> [] \<and> hd s1 = CHR ''-'');
          s2 = (if s1 \<noteq> [] \<and> (hd s1 = CHR ''-'' \<or> hd s1 = CHR ''+'') then tl s1 else s1);
          ds = takeWhile is_digit s2
      in if ds = [] then None
         else Some (if neg then - int (digits_value ds) else int (digits_value ds)))"

text \<open>
  A JSON scalar that is not text, as the handlers read \<open>is_private\<close> and
  \<open>sort_order\<close>. Numbers are integers: the sort orders and flags of the store.
\<close>

datatype jsval = Undefined | Null | Bool bool | Num int


text \<open>\<open>Number(v)\<close>; \<open>None\<close> is NaN, the only value here that is not finite.\<close>

fun toNumber :: "jsval \<Rightarrow> int option" where
  "toNumber Undefined = None"
| "toNumber Null = Some 0"
| "toNumber (Bool b) = Some (if b then 1 else 0)"
| "toNumber (Num n) = Some n"

text \<open>
  The homepage defines \<open>normalizeSortOrder\<close>; the create operation imports a function
  of this name from the middleware, taken to be the same.
\<close>

definition normalizeSortOrder :: "jsval \<Rightarrow> int" where
  "normalizeSortOrder val = (case toNumber val of Some num \<Rightarrow> num | None \<Rightarrow> 9999)"

text \<open>A numeric column as the handler receives it: NULL is \<open>null\<close>.\<close>

definition column_value :: "int option \<Rightarrow> jsval" where
  "column_value v = (case v of None \<Rightarrow> Null | Some n \<Rightarrow> Num n)"

section \<open>The store\<close>

record site_row =
  s_id :: int
  s_name :: "string option"
  s_url :: "string option"
  s_logo :: "string option"
  s_desc :: "string option"
  s_catelog_id :: "int option"
  s_catelog_name :: "string option"
  s_sort_order :: "int option"
  s_is_private :: "int option"
  s_create_time :: "int option"

record category_row =
  c_id :: int
  c_catelog :: "string option"
  c_is_private :: "int option"
  c_sort_order :: "int option"

text \<open>
  The tables the handlers read and write, with the columns the list operation ensures on
  its first call. The \<open>category\<close> table may be absent (\<open>None\<close>): a statement that
  names it then fails with \<open>NoSuchTable\<close>. The \<open>settings\<close> table is read as it is; the
  handler falls back to the default layout when it cannot be read.
\<close>

record db =
  db_sites :: "site_row list"
  db_category :: "category_row list option"
  db_settings :: "(string \<times> string) list"

text \<open>
  What the \<open>catch\<close> of a handler can receive: a request body that is not JSON, a
  statement on a table that does not exist, a limit or offset that is not an integer.
\<close>

datatype thrown = SyntaxError | NoSuchTable | NotAnInteger

text \<open>
  What the store's engine decides and the repository does not: how \<open>LIKE\<close> matches a
  pattern against a text (its case folding and wild cards), and when a bound text equals
  an integer id. The handlers are modelled for every such engine.
\<close>

record engine =
  like :: "string \<Rightarrow> string \<Rightarrow> bool"
  id_equals_text :: "int \<Rightarrow> string \<Rightarrow> bool"

definition sql_like :: "engine \<Rightarrow> string option \<Rightarrow> string \<Rightarrow> bool" where
  "sql_like eng col pat = (case col of None \<Rightarrow> False | Some t \<Rightarrow> like eng t pat)"

text \<open>A stable insertion sort by a relation \<open>le\<close>: ties keep their order.\<close>

fun insert_by :: "('a \<Rightarrow> 'a \<Rightarrow> bool) \<Rightarrow> 'a \<Rightarrow> 'a list \<Rightarrow> 'a list" where
  "insert_by le x [] = [x]"
| "insert_by le x (y # ys) = (if le x y then x # y # ys else y # insert_by le x ys)"

definition sort_by :: "('a \<Rightarrow> 'a \<Rightarrow> bool) \<Rightarrow> 'a list \<Rightarrow> 'a list" where
  "sort_by le xs = foldr (insert_by le) xs []"

text \<open>
  \<open>ORDER BY sort_order ASC, create_time DESC\<close>: NULL is the least value; rows that
  tie on both keys stay in table order.
\<close>

definition site_le :: "site_row \<Rightarrow> site_row \<Rightarrow> bool" where
  "site_le a b =
     (s_sort_order a < s_sort_order b \<or>
      (s_sort_order a = s_sort_order b \<and> s_create_time b \<le> s_create_time a))"

definition order_by_sort :: "site_row list \<Rightarrow> site_row list" where
  "order_by_sort rows = sort_by site_le rows"

text \<open>\<open>LIMIT l OFFSET o\<close>: a negative limit is no limit, a negative offset is 0.\<close>

definition sql_limit :: "int \<Rightarrow> int \<Rightarrow> 'a list \<Rightarrow> 'a list" where
  "sql_limit l off rows =
     (let rest = drop (nat off) rows in if l < 0 then rest else take (nat l) rest)"

section \<open>The config API: the list operation\<close>

record get_request =
  q_catalog :: "string option"
  q_catalogId :: "string option"
  q_page :: "string option"
  q_pageSize :: "string option"
  q_keyword :: "string option"
  q_isAdmin :: bool

text \<open>
  \<open>queryBase\<close> with its bound parameters, as a predicate on a row of \<open>sites\<close>. It
  starts as \<open>(s.is_private = 0 OR ? = 1)\<close>; then the category filter is appended
  (\<open>catalogId\<close> first, else \<open>catalog\<close>), then the keyword filter over name, url,
  category name and description.
\<close>

definition visible :: "int \<Rightarrow> site_row \<Rightarrow> bool" where
  "visible includePrivate s = (s_is_private s = Some 0 \<or> includePrivate = 1)"

definition catalog_filter ::
  "engine \<Rightarrow> string option \<Rightarrow> string option \<Rightarrow> site_row \<Rightarrow> bool" where
  "catalog_filter eng catalogId catalog s =
     (if truthy_text catalogId
      then (case s_catelog_id s of
              None \<Rightarrow> False
            | Some i \<Rightarrow> id_equals_text eng i (or_else catalogId []))
      else if truthy_text catalog then s_catelog_name s = catalog
      else True)"

definition keyword_filter :: "engine \<Rightarrow> string option \<Rightarrow> site_row \<Rightarrow> bool" where
  "keyword_filter eng keyword s =
     (if truthy_text keyword
      then (let pat = ''%'' @ or_else keyword [] @ ''%''
            in sql_like eng (s_name s) pat \<or> sql_like eng (s_url s) pat \<or>
               sql_like eng (s_catelog_name s) pat \<or> sql_like eng (s_desc s) pat)
      else True)"

definition queryBase ::
  "engine \<Rightarrow> int \<Rightarrow> string option \<Rightarrow> string option \<Rightarrow> string option \<Rightarrow> site_row \<Rightarrow> bool" where
  "queryBase eng includePrivate catalogId catalog keyword s =
     (visible includePrivate s \<and> catalog_filter eng catalogId catalog s \<and>
      keyword_filter eng keyword s)"

text \<open>
  The total the response reports: with a page size of 1000 or more the count statement
  is not issued.
\<close>

datatype stmt = PageQuery | CountQuery

record list_body =
  r_code :: nat
  r_data :: "site_row list"
  r_total :: int
  r_page :: int
  r_pageSize :: int

datatype get_response =
  JsonResponse list_body
| GetError string thrown nat

definition report_total :: "int \<Rightarrow> int \<Rightarrow> 'a list \<Rightarrow> int \<Rightarrow> int \<times> stmt list" where
  "report_total pageSize offset results counted =
     (if pageSize \<ge> 1000 then (int (length results) + offset, [PageQuery])
      else (counted, [PageQuery, CountQuery]))"

text \<open>
  The handler returns its response and the statements of the listing it sent to the
  store. A page or page size that does not parse is NaN, so is the offset; the store
  refuses a limit or offset that is not an integer and the handler answers 500.
\<close>

definition onRequestGet :: "engine \<Rightarrow> db \<Rightarrow> get_request \<Rightarrow> get_response \<times> stmt list" where
  "onRequestGet eng d req =
     (let page = parseInt (or_else (q_page req) ''1'');
          pageSize = parseInt (or_else (q_pageSize req) ''10'');
          includePrivate = (if q_isAdmin req then 1 else 0);
          matching = filter (queryBase eng includePrivate (q_catalogId req) (q_catalog req)
                               (q_keyword req)) (db_sites d)
      in case (page, pageSize) of
           (Some p, Some ps) \<Rightarrow>
             (let offset = (p - 1) * ps;
                  results = sql_limit ps offset (order_by_sort matching);
                  (total, sent) = report_total ps offset results (int (length matching))
              in (JsonResponse \<lparr>r_code = 200, r_data = results, r_total = total,
                                 r_page = p, r_pageSize = ps\<rparr>, sent))
         | _ \<Rightarrow> (GetError ''Failed to fetch config data: '' NotAnInteger 500, [PageQuery]))"

section \<open>The config API: the create operation\<close>










section \<open>The homepage renderer\<close>

subsection \<open>Escaping and URLs\<close>

definition replace_char :: "char \<Rightarrow> string \<Rightarrow> string \<Rightarrow> string" where
  "replace_char c by s = concat (map (\<lambda>x. if x = c then by else [x]) s)"

text \<open>The five replacements run one after the other, \<open>&\<close> first.\<close>

definition escapeHTML :: "string \<Rightarrow> string" where
  "escapeHTML str =
     replace_char (CHR 0x27) ''&#39;''
       (replace_char (CHR 0x22) ''&quot;''
         (replace_char (CHR ''>'') ''&gt;''
           (replace_char (CHR ''<'') ''&lt;''
             (replace_char (CHR ''&'') ''&amp;'' str))))"

text \<open>
  The runtime's URL parser (\<open>new URL(s)\<close>) is a parameter: it fails (\<open>None\<close>) or gives
  the protocol and the normalised \<open>href\<close>.
\<close>

record parsed_url =
  protocol :: string
  href :: string

definition sanitizeUrl :: "(string \<Rightarrow> parsed_url option) \<Rightarrow> string option \<Rightarrow> string" where
  "sanitizeUrl parse url =
     (if \<not> truthy_text url then []
      else let trimmed = trim (or_else url [])
           in if trimmed = [] then []
              else case parse trimmed of
                     Some parsed \<Rightarrow>
                       if protocol parsed \<noteq> ''http:'' \<and> protocol parsed \<noteq> ''https:'' then []
                       else href parsed
                   | None \<Rightarrow>
                       if startsWith (toLowerCase trimmed) ''http://'' \<or>
                          startsWith (toLowerCase trimmed) ''https://''
                       then trimmed
                       else [])"

subsection \<open>The data load\<close>

text \<open>A row of the join: the site's columns and the category's name, \<open>catelog\<close>.\<close>

record home_row =
  hr_site :: site_row
  hr_catelog :: "string option"

definition home_le :: "home_row \<Rightarrow> home_row \<Rightarrow> bool" where
  "home_le a b = site_le (hr_site a) (hr_site b)"

text \<open>
  \<open>SELECT s.*, c.catelog FROM sites s INNER JOIN category c ON s.catelog_id = c.id
  WHERE (s.is_private = 0 OR ? = 1) ORDER BY s.sort_order ASC, s.create_time DESC\<close>
\<close>

definition join_category :: "category_row list \<Rightarrow> site_row \<Rightarrow> home_row list" where
  "join_category cats s =
     map (\<lambda>c. \<lparr>hr_site = s, hr_catelog = c_catelog c\<rparr>)
       (filter (\<lambda>c. s_catelog_id s = Some (c_id c)) cats)"

definition load_sites :: "db \<Rightarrow> int \<Rightarrow> thrown + home_row list" where
  "load_sites d includePrivate =
     (case db_category d of
        None \<Rightarrow> Inl NoSuchTable
      | Some cats \<Rightarrow>
          Inr (sort_by home_le
                 (concat (map (join_category cats)
                            (filter (visible includePrivate) (db_sites d))))))"

text \<open>\<open>SELECT catelog, sort_order FROM category\<close>\<close>

definition load_orders :: "db \<Rightarrow> thrown + (string option \<times> int option) list" where
  "load_orders d =
     (case db_category d of
        None \<Rightarrow> Inl NoSuchTable
      | Some cats \<Rightarrow> Inr (map (\<lambda>c. (c_catelog c, c_sort_order c)) cats))"

subsection \<open>Category ordering\<close>

text \<open>The label of a site without a category name: U+672A U+5206 U+7C7B.\<close>

definition uncategorized :: string where
  "uncategorized =
     [CHR 0xE6, CHR 0x9C, CHR 0xAA, CHR 0xE5, CHR 0x88, CHR 0x86, CHR 0xE7, CHR 0xB1, CHR 0xBB]"

definition categoryName :: "home_row \<Rightarrow> string" where
  "categoryName site =
     (let t = trim (or_else (hr_catelog site) []) in if t = [] then uncategorized else t)"

text \<open>
  The three collections the loop over the sites fills: \<open>categorySet\<close> keeps the names in
  the order of their first appearance, as a \<open>Set\<close> does.
\<close>

record category_state =
  categorySet :: "string list"
  categoryIdMap :: "string \<rightharpoonup> int"
  categoryMinSort :: "string \<rightharpoonup> int"

definition set_add :: "'a \<Rightarrow> 'a list \<Rightarrow> 'a list" where
  "set_add x xs = (if x \<in> set xs then xs else xs @ [x])"

definition normalized_sort :: "home_row \<Rightarrow> int" where
  "normalized_sort site =
     (case toNumber (column_value (s_sort_order (hr_site site))) of
        Some rawSort \<Rightarrow> rawSort
      | None \<Rightarrow> 9999)"

definition visit_site :: "category_state \<Rightarrow> home_row \<Rightarrow> category_state" where
  "visit_site st site =
     (let name = categoryName site;
          normalized = normalized_sort site
      in \<lparr>categorySet = set_add name (categorySet st),
          categoryIdMap =
            (case s_catelog_id (hr_site site) of
               None \<Rightarrow> categoryIdMap st
             | Some i \<Rightarrow>
                 if i \<noteq> 0 \<and> categoryIdMap st name = None then (categoryIdMap st)(name \<mapsto> i)
                 else categoryIdMap st),
          categoryMinSort =
            (case categoryMinSort st name of
               None \<Rightarrow> (categoryMinSort st)(name \<mapsto> normalized)
             | Some m \<Rightarrow>
                 if normalized < m then (categoryMinSort st)(name \<mapsto> normalized)
                 else categoryMinSort st)\<rparr>)"

definition visit_sites :: "home_row list \<Rightarrow> category_state" where
  "visit_sites sites =
     foldl visit_site
       \<lparr>categorySet = [], categoryIdMap = Map.empty, categoryMinSort = Map.empty\<rparr> sites"

definition categoryOrderMap :: "(string option \<times> int option) list \<Rightarrow> (string option \<rightharpoonup> int)" where
  "categoryOrderMap orderRows =
     foldl (\<lambda>m row. m(fst row \<mapsto> normalizeSortOrder (column_value (snd row)))) Map.empty orderRows"

record catalog_meta =
  cm_name :: string
  cm_order :: int
  cm_fallback :: int
  cm_id :: "int option"

definition meta_of :: "category_state \<Rightarrow> (string option \<rightharpoonup> int) \<Rightarrow> string \<Rightarrow> catalog_meta" where
  "meta_of st orders name =
     (let fallbackSort = (case categoryMinSort st name of
                            Some m \<Rightarrow> normalizeSortOrder (Num m)
                          | None \<Rightarrow> 9999)
      in \<lparr>cm_name = name,
          cm_order = (case orders (Some name) of Some v \<Rightarrow> v | None \<Rightarrow> fallbackSort),
          cm_fallback = fallbackSort,
          cm_id = categoryIdMap st name\<rparr>)"

text \<open>
  The comparator of the sort. \<open>localeCompare\<close> (with locale \<open>zh-Hans-CN\<close> and base
  sensitivity) belongs to the runtime and is the parameter \<open>lc\<close>.
\<close>

definition compareMeta :: "(string \<Rightarrow> string \<Rightarrow> int) \<Rightarrow> catalog_meta \<Rightarrow> catalog_meta \<Rightarrow> int" where
  "compareMeta lc a b =
     (if cm_order a \<noteq> cm_order b then cm_order a - cm_order b
      else if cm_fallback a \<noteq> cm_fallback b then cm_fallback a - cm_fallback b
      else lc (cm_name a) (cm_name b))"

text \<open>The three keys of a category: its name, its order and its fallback.\<close>

definition meta_key :: "catalog_meta \<Rightarrow> string \<times> int \<times> int" where
  "meta_key m = (cm_name m, cm_order m, cm_fallback m)"

text \<open>
  \<open>Array.prototype.sort\<close> is stable: with a comparator that is consistent (total and
  transitive), it gives the sorted list in which elements the comparator ties keep their
  order.
\<close>

definition catalogsWithMeta ::
  "(string \<Rightarrow> string \<Rightarrow> int) \<Rightarrow> category_state \<Rightarrow> (string option \<rightharpoonup> int) \<Rightarrow> catalog_meta list" where
  "catalogsWithMeta lc st orders =
     sort_by (\<lambda>a b. compareMeta lc a b \<le> 0) (map (meta_of st orders) (categorySet st))"

subsection \<open>Catalog selection\<close>

definition resolve_catalog :: "string option \<Rightarrow> string option \<Rightarrow> string list \<Rightarrow> string" where
  "resolve_catalog catalog display_category catalogs =
     (let requested = trim (or_else catalog []);
          explicitAll = (toLowerCase requested = ''all'');
          requestedCatalog = (if explicitAll then [] else requested)
      in if requestedCatalog = [] \<and> \<not> explicitAll \<and> truthy_text display_category
         then (let defaultCat = trim (or_else display_category [])
               in if defaultCat \<in> set catalogs then defaultCat else requestedCatalog)
         else requestedCatalog)"

definition catalogExists :: "string \<Rightarrow> string list \<Rightarrow> bool" where
  "catalogExists requestedCatalog catalogs =
     (requestedCatalog \<noteq> [] \<and> requestedCatalog \<in> set catalogs)"

text \<open>\<open>catalogs[0]\<close> of an empty list is \<open>undefined\<close>, here \<open>None\<close>.\<close>

definition currentCatalog :: "string \<Rightarrow> string list \<Rightarrow> string option" where
  "currentCatalog requestedCatalog catalogs =
     (if catalogExists requestedCatalog catalogs then Some requestedCatalog
      else case catalogs of [] \<Rightarrow> None | c # cs \<Rightarrow> Some c)"

definition currentSites :: "string \<Rightarrow> string list \<Rightarrow> home_row list \<Rightarrow> home_row list" where
  "currentSites requestedCatalog catalogs sites =
     (if catalogExists requestedCatalog catalogs
      then filter (\<lambda>s. Some (categoryName s) = currentCatalog requestedCatalog catalogs) sites
      else sites)"

subsection \<open>Layout settings\<close>

record layout =
  layoutHideDesc :: bool
  layoutHideLinks :: bool
  layoutHideCategory :: bool
  layoutHideTitle :: bool
  layoutHideSubtitle :: bool
  layoutGridCols :: string
  layoutCustomWallpaper :: string
  layoutMenuLayout :: string
  layoutRandomWallpaper :: bool
  bingCountry :: string
  layoutEnableFrostedGlass :: bool
  layoutFrostedGlassIntensity :: string
  layoutEnableBgBlur :: bool
  layoutBgBlurIntensity :: string

definition default_layout :: layout where
  "default_layout =
     \<lparr>layoutHideDesc = False, layoutHideLinks = False, layoutHideCategory = False,
      layoutHideTitle = False, layoutHideSubtitle = False, layoutGridCols = ''4'',
      layoutCustomWallpaper = [], layoutMenuLayout = ''horizontal'',
      layoutRandomWallpaper = False, bingCountry = [], layoutEnableFrostedGlass = False,
      layoutFrostedGlassIntensity = ''15'', layoutEnableBgBlur = False,
      layoutBgBlurIntensity = ''0''\<rparr>"

definition apply_setting :: "layout \<Rightarrow> string \<times> string \<Rightarrow> layout" where
  "apply_setting l row =
     (let key = fst row; v = snd row
      in if key = ''layout_hide_desc'' then l\<lparr>layoutHideDesc := (v = ''true'')\<rparr>
         else if key = ''layout_hide_links'' then l\<lparr>layoutHideLinks := (v = ''true'')\<rparr>
         else if key = ''layout_hide_category'' then l\<lparr>layoutHideCategory := (v = ''true'')\<rparr>
         else if key = ''layout_hide_title'' then l\<lparr>layoutHideTitle := (v = ''true'')\<rparr>
         else if key = ''layout_hide_subtitle'' then l\<lparr>layoutHideSubtitle := (v = ''true'')\<rparr>
         else if key = ''layout_grid_cols'' then l\<lparr>layoutGridCols := v\<rparr>
         else if key = ''layout_custom_wallpaper'' then l\<lparr>layoutCustomWallpaper := v\<rparr>
         else if key = ''layout_menu_layout'' then l\<lparr>layoutMenuLayout := v\<rparr>
         else if key = ''layout_random_wallpaper'' then l\<lparr>layoutRandomWallpaper := (v = ''true'')\<rparr>
         else if key = ''bing_country'' then l\<lparr>bingCountry := v\<rparr>
         else if key = ''layout_enable_frosted_glass''
           then l\<lparr>layoutEnableFrostedGlass := (v = ''true'')\<rparr>
         else if key = ''layout_frosted_glass_intensity''
           then l\<lparr>layoutFrostedGlassIntensity := v\<rparr>
         else if key = ''layout_enable_bg_blur'' then l\<lparr>layoutEnableBgBlur := (v = ''true'')\<rparr>
         else if key = ''layout_bg_blur_intensity'' then l\<lparr>layoutBgBlurIntensity := v\<rparr>
         else l)"

definition load_layout :: "db \<Rightarrow> layout" where
  "load_layout d = foldl apply_setting default_layout (db_settings d)"

subsection \<open>Wallpaper rotation\<close>

text \<open>
  The first match of \<open>/wallpaper_index=(\d+)/\<close> in the \<open>Cookie\<close> header: the digits
  after the leftmost \<open>wallpaper_index=\<close> that a digit follows.
\<close>

fun match_wallpaper_index :: "string \<Rightarrow> string option" where
  "match_wallpaper_index [] = None"
| "match_wallpaper_index (c # cs) =
     (if startsWith (c # cs) ''wallpaper_index='' \<and>
         takeWhile is_digit (drop 16 (c # cs)) \<noteq> []
      then Some (takeWhile is_digit (drop 16 (c # cs)))
      else match_wallpaper_index cs)"

definition currentWallpaperIndex :: "string option \<Rightarrow> int" where
  "currentWallpaperIndex cookie =
     (case match_wallpaper_index (or_else cookie []) of
        Some ds \<Rightarrow> int (digits_value ds)
      | None \<Rightarrow> - 1)"

text \<open>
  What the fetch of the feed can give: a failed fetch, a status that is not ok, a body
  that is not JSON or not an array, or the array. An image of the feed has a \<open>fullUrl\<close>
  and a \<open>url\<close>, each a text or absent.
\<close>

record feed_item =
  fullUrl :: "string option"
  url :: "string option"

datatype feed_result = FetchFailed | NotOk | NotJson | NotArray | Feed "feed_item list"

definition bingUrl :: "string \<Rightarrow> string" where
  "bingUrl country =
     (if country = ''spotlight'' then ''https://peapix.com/spotlight/feed?n=7''
      else ''https://peapix.com/bing/feed?n=7&country='' @ country)"

text \<open>The remainder \<open>a % b\<close>: its sign is the sign of \<open>a\<close>.\<close>

definition js_rem :: "int \<Rightarrow> int \<Rightarrow> int" where
  "js_rem a b = sgn a * (\<bar>a\<bar> mod \<bar>b\<bar>)"

text \<open>
  The rotation gives \<open>nextWallpaperIndex\<close> and the wallpaper to use. The index into the
  feed is in range: it is a remainder by the length of a feed that is not empty.
\<close>

definition rotate_wallpaper ::
  "(string \<Rightarrow> feed_result) \<Rightarrow> layout \<Rightarrow> string option \<Rightarrow> int \<times> string" where
  "rotate_wallpaper fetch l cookie =
     (if layoutRandomWallpaper l
      then (case fetch (bingUrl (bingCountry l)) of
              Feed data \<Rightarrow>
                if data \<noteq> []
                then (let nextWallpaperIndex =
                            js_rem (currentWallpaperIndex cookie + 1) (int (length data));
                          targetItem = data ! nat nextWallpaperIndex;
                          targetUrl = (if truthy_text (fullUrl targetItem) then fullUrl targetItem
                                       else url targetItem)
                      in (nextWallpaperIndex,
                          if truthy_text targetUrl then or_else targetUrl []
                          else layoutCustomWallpaper l))
                else (0, layoutCustomWallpaper l)
            | _ \<Rightarrow> (0, layoutCustomWallpaper l))
      else (0, layoutCustomWallpaper l))"

fun decimal :: "nat \<Rightarrow> string" where
  "decimal n = (if n < 10 then [''0123456789'' ! n]
                else decimal (n div 10) @ [''0123456789'' ! (n mod 10)])"

definition wallpaper_cookie :: "layout \<Rightarrow> int \<Rightarrow> string option" where
  "wallpaper_cookie l nextWallpaperIndex =
     (if layoutRandomWallpaper l
      then Some (''wallpaper_index='' @ decimal (nat nextWallpaperIndex) @
                 ''; Path=/; Max-Age=31536000; SameSite=Lax'')
      else None)"

subsection \<open>Site cards\<close>

text \<open>
  The labels of a card: ``unnamed'' (U+672A U+547D U+540D), ``no description''
  (U+6682 U+65E0 U+63CF U+8FF0), ``no link given'' (U+672A U+63D0 U+4F9B U+94FE U+63A5)
  and the initial of a card without a name (U+7AD9).
\<close>

definition unnamed :: string where
  "unnamed =
     [CHR 0xE6, CHR 0x9C, CHR 0xAA, CHR 0xE5, CHR 0x91, CHR 0xBD, CHR 0xE5, CHR 0x90, CHR 0x8D]"

definition no_description :: string where
  "no_description =
     [CHR 0xE6, CHR 0x9A, CHR 0x82, CHR 0xE6, CHR 0x97, CHR 0xA0, CHR 0xE6, CHR 0x8F, CHR 0x8F,
      CHR 0xE8, CHR 0xBF, CHR 0xB0]"

definition no_link_given :: string where
  "no_link_given =
     [CHR 0xE6, CHR 0x9C, CHR 0xAA, CHR 0xE6, CHR 0x8F, CHR 0x90, CHR 0xE4, CHR 0xBE, CHR 0x9B,
      CHR 0xE9, CHR 0x93, CHR 0xBE, CHR 0xE6, CHR 0x8E, CHR 0xA5]"

definition default_initial :: string where
  "default_initial = [CHR 0xE7, CHR 0xAB, CHR 0x99]"

text \<open>\<open>charAt(0)\<close>: the first character, with the bytes that continue it.\<close>

definition charAt0 :: "string \<Rightarrow> string" where
  "charAt0 s =
     (case s of
        [] \<Rightarrow> []
      | c # cs \<Rightarrow> c # takeWhile (\<lambda>x. 128 \<le> (of_char x :: nat) \<and> (of_char x :: nat) < 192) cs)"

text \<open>
  A card is the markup of one site; the model keeps the values the markup is built from.
  \<open>card_href\<close> is the \<open>href\<close> of the card's link and \<open>card_new_tab\<close> says whether the
  link has \<open>target="_blank"\<close>; the icon is an \<open>img\<close> with its \<open>src\<close> and \<open>alt\<close>, or
  the initial letter; \<open>card_links\<close> is the row with the shown URL and the copy button
  (its \<open>data-url\<close>, and whether it is \<open>disabled\<close>), absent when links are hidden.
\<close>

datatype icon = Img string string | InitialLetter string

record links_row =
  shown_url :: string
  copy_data_url :: string
  copy_disabled :: bool

record card =
  card_id :: int
  card_data_name :: string
  card_data_url :: string
  card_data_catalog :: string
  card_href :: string
  card_new_tab :: bool
  card_icon :: icon
  card_title :: string
  card_category :: "string option"
  card_desc :: "string option"
  card_links :: "links_row option"

definition site_card :: "(string \<Rightarrow> parsed_url option) \<Rightarrow> layout \<Rightarrow> home_row \<Rightarrow> card" where
  "site_card parse l site =
     (let rawName = or_else (s_name (hr_site site)) unnamed;
          rawCatalog = or_else (hr_catelog site) uncategorized;
          rawDesc = or_else (s_desc (hr_site site)) no_description;
          normalizedUrl = sanitizeUrl parse (s_url (hr_site site));
          hrefValue = escapeHTML (if normalizedUrl = [] then ''#'' else normalizedUrl);
          displayUrlText = (if normalizedUrl = [] then or_else (s_url (hr_site site)) []
                            else normalizedUrl);
          safeDisplayUrl = (if displayUrlText = [] then no_link_given
                            else escapeHTML displayUrlText);
          dataUrlAttr = escapeHTML normalizedUrl;
          logoUrl = sanitizeUrl parse (s_logo (hr_site site));
          cardInitial = escapeHTML (toUpperCase
                          (if charAt0 (trim rawName) = [] then default_initial
                           else charAt0 (trim rawName)));
          safeName = escapeHTML rawName;
          hasValidUrl = (normalizedUrl \<noteq> [])
      in \<lparr>card_id = s_id (hr_site site),
          card_data_name = escapeHTML (or_else (s_name (hr_site site)) []),
          card_data_url = dataUrlAttr,
          card_data_catalog = escapeHTML (or_else (hr_catelog site) []),
          card_href = hrefValue,
          card_new_tab = hasValidUrl,
          card_icon = (if logoUrl \<noteq> [] then Img (escapeHTML logoUrl) safeName
                       else InitialLetter cardInitial),
          card_title = safeName,
          card_category = (if layoutHideCategory l then None else Some (escapeHTML rawCatalog)),
          card_desc = (if layoutHideDesc l then None else Some (escapeHTML rawDesc)),
          card_links = (if layoutHideLinks l then None
                        else Some \<lparr>shown_url = safeDisplayUrl, copy_data_url = dataUrlAttr,
                                   copy_disabled = (\<not> hasValidUrl)\<rparr>)\<rparr>)"

subsection \<open>The page\<close>

text \<open>
  The heading: the catalog's name with the number of its sites, or ``all bookmarks''
  (U+5168 U+90E8 U+6536 U+85CF) with the number of all sites.
\<close>

datatype heading = CatalogHeading string nat | AllHeading nat

record menu_link =
  ml_name :: string
  ml_id :: "int option"
  ml_active :: bool

text \<open>
  The values the handler puts into the template: the category menu in its order, the
  ``all'' link, the heading, the cards of the sites shown, the wallpaper, and the
  \<open>Set-Cookie\<close> header if there is one. The template itself is a static asset.
\<close>

record home_page =
  pg_catalogs :: "string list"
  pg_catalogExists :: bool
  pg_currentCatalog :: "string option"
  pg_currentSites :: "home_row list"
  pg_menu :: "menu_link list"
  pg_allLinkActive :: bool
  pg_heading :: heading
  pg_headingActive :: string
  pg_cards :: "card list"
  pg_totalSites :: nat
  pg_wallpaper :: string
  pg_set_cookie :: "string option"

datatype home_response = Page home_page | HomeError string thrown nat

record home_request =
  h_catalog :: "string option"
  h_isAdmin :: bool
  h_cookie :: "string option"
  h_DISPLAY_CATEGORY :: "string option"

text \<open>What the runtime provides: the collation, the URL parser and the fetch of a feed.\<close>

record runtime =
  localeCompare :: "string \<Rightarrow> string \<Rightarrow> int"
  parseURL :: "string \<Rightarrow> parsed_url option"
  fetch :: "string \<Rightarrow> feed_result"

text \<open>
  The category orders: a missing table is tolerated (the message matches
  \<open>/no such table/i\<close>) and leaves the map empty; any other failure is an error.
\<close>

definition category_orders :: "db \<Rightarrow> thrown + (string option \<rightharpoonup> int)" where
  "category_orders d =
     (case load_orders d of
        Inr orderRows \<Rightarrow> Inr (categoryOrderMap orderRows)
      | Inl error \<Rightarrow> if error = NoSuchTable then Inr Map.empty else Inl error)"

definition render_page ::
  "runtime \<Rightarrow> db \<Rightarrow> home_request \<Rightarrow> home_row list \<Rightarrow> (string option \<rightharpoonup> int) \<Rightarrow> home_page" where
  "render_page rt d req sites orders =
     (let metas = catalogsWithMeta (localeCompare rt) (visit_sites sites) orders;
          catalogs = map cm_name metas;
          requestedCatalog = resolve_catalog (h_catalog req) (h_DISPLAY_CATEGORY req) catalogs;
          exists = catalogExists requestedCatalog catalogs;
          current = currentCatalog requestedCatalog catalogs;
          shown = currentSites requestedCatalog catalogs sites;
          l = load_layout d;
          rotated = rotate_wallpaper (fetch rt) l (h_cookie req)
      in \<lparr>pg_catalogs = catalogs,
          pg_catalogExists = exists,
          pg_currentCatalog = current,
          pg_currentSites = shown,
          pg_menu = map (\<lambda>catObj. \<lparr>ml_name = escapeHTML (cm_name catObj), ml_id = cm_id catObj,
                                     ml_active = (exists \<and> Some (cm_name catObj) = current)\<rparr>)
                      metas,
          pg_allLinkActive = (\<not> exists),
          pg_heading = (if exists then CatalogHeading requestedCatalog (length shown)
                        else AllHeading (length sites)),
          pg_headingActive = (if exists then escapeHTML requestedCatalog else []),
          pg_cards = map (site_card (parseURL rt) l) shown,
          pg_totalSites = length sites,
          pg_wallpaper = sanitizeUrl (parseURL rt) (Some (snd rotated)),
          pg_set_cookie = wallpaper_cookie l (fst rotated)\<rparr>)"

definition onRequest :: "runtime \<Rightarrow> db \<Rightarrow> home_request \<Rightarrow> home_response" where
  "onRequest rt d req =
     (case load_sites d (if h_isAdmin req then 1 else 0) of
        Inl e \<Rightarrow> HomeError ''Failed to fetch data: '' e 500
      | Inr sites \<Rightarrow>
          (case category_orders d of
             Inl error \<Rightarrow> HomeError ''Failed to fetch category orders: '' error 500
           | Inr orders \<Rightarrow> Page (render_page rt d req sites orders)))"

section \<open>Example data\<close>

text \<open>
  An engine for the examples: \<open>LIKE\<close> with a pattern \<open>%k%\<close> is a search for \<open>k\<close> that
  ignores the case of ASCII letters, and a bound text equals an id when it spells it.
\<close>

fun contains :: "string \<Rightarrow> string \<Rightarrow> bool" where
  "contains [] k = (k = [])"
| "contains (c # cs) k = (startsWith (c # cs) k \<or> contains cs k)"

definition example_engine :: engine where
  "example_engine =
     \<lparr>like = (\<lambda>t pat. contains (toLowerCase t) (toLowerCase (butlast (tl pat)))),
      id_equals_text = (\<lambda>i t. parseInt t = Some i)\<rparr>"

definition site_tech :: site_row where
  "site_tech =
     \<lparr>s_id = 1, s_name = Some ''Isabelle'', s_url = Some ''https://isabelle.in.tum.de/'',
      s_logo = None, s_desc = Some ''A proof assistant'', s_catelog_id = Some 1,
      s_catelog_name = Some ''Tech'', s_sort_order = Some 2, s_is_private = Some 0,
      s_create_time = Some 100\<rparr>"

definition site_intranet :: site_row where
  "site_intranet =
     \<lparr>s_id = 2, s_name = Some ''Intranet'', s_url = Some ''https://intranet.example/'',
      s_logo = None, s_desc = None, s_catelog_id = Some 2,
      s_catelog_name = Some ''Work'', s_sort_order = Some 1, s_is_private = Some 1,
      s_create_time = Some 200\<rparr>"

definition site_news :: site_row where
  "site_news =
     \<lparr>s_id = 3, s_name = Some ''News'', s_url = Some ''javascript:alert(1)'',
      s_logo = Some ''javascript:alert(1)'', s_desc = None, s_catelog_id = Some 2,
      s_catelog_name = Some ''Work'', s_sort_order = Some 3, s_is_private = Some 0,
      s_create_time = Some 300\<rparr>"

definition example_categories :: "category_row list" where
  "example_categories =
     [\<lparr>c_id = 1, c_catelog = Some ''Tech'', c_is_private = Some 0, c_sort_order = Some 2\<rparr>,
      \<lparr>c_id = 2, c_catelog = Some ''Work'', c_is_private = Some 0, c_sort_order = Some 1\<rparr>,
      \<lparr>c_id = 3, c_catelog = Some ''Secret'', c_is_private = Some 1, c_sort_order = Some 3\<rparr>]"

definition example_db :: db where
  "example_db =
     \<lparr>db_sites = [site_tech, site_intranet, site_news],
      db_category = Some example_categories,
      db_settings = []\<rparr>"

definition example_get :: get_request where
  "example_get =
     \<lparr>q_catalog = None, q_catalogId = None, q_page = None, q_pageSize = Some ''1000'',
      q_keyword = None, q_isAdmin = False\<rparr>"





text \<open>
  A runtime for the examples. The comparison ignores the case of ASCII letters, as base
  sensitivity does (\<open>a = A\<close>), and orders texts by their characters otherwise. The URL
  parser is given by its verdicts on the texts of the examples: it accepts the three
  well-formed \<open>https\<close> URLs as they are, reads \<open>javascript:alert(1)\<close> with the protocol
  \<open>javascript:\<close>, and fails on every other text, as it does on \<open>http://exa mple.com\<close>,
  whose host has a space. The feed has three images.
\<close>

fun text_less :: "string \<Rightarrow> string \<Rightarrow> bool" where
  "text_less xs [] = False"
| "text_less [] (y # ys) = True"
| "text_less (x # xs) (y # ys) =
     ((of_char x :: nat) < of_char y \<or> (x = y \<and> text_less xs ys))"

definition base_compare :: "string \<Rightarrow> string \<Rightarrow> int" where
  "base_compare a b =
     (if toLowerCase a = toLowerCase b then 0
      else if text_less (toLowerCase a) (toLowerCase b) then - 1 else 1)"

definition example_parse :: "string \<Rightarrow> parsed_url option" where
  "example_parse s =
     (if s \<in> set [''https://isabelle.in.tum.de/'', ''https://intranet.example/'',
                   ''https://img.example/2.jpg'']
      then Some \<lparr>protocol = ''https:'', href = s\<rparr>
      else if s = ''javascript:alert(1)'' then Some \<lparr>protocol = ''javascript:'', href = s\<rparr>
      else None)"

definition example_feed :: "feed_item list" where
  "example_feed =
     [\<lparr>fullUrl = Some ''https://img.example/0.jpg'', url = None\<rparr>,
      \<lparr>fullUrl = Some ''https://img.example/1.jpg'', url = None\<rparr>,
      \<lparr>fullUrl = None, url = Some ''https://img.example/2.jpg''\<rparr>]"

definition example_runtime :: runtime where
  "example_runtime =
     \<lparr>localeCompare = base_compare,
      parseURL = example_parse,
      fetch = (\<lambda>u. if u = ''https://peapix.com/bing/feed?n=7&country=us'' then Feed example_feed
                    else NotOk)\<rparr>"

definition example_home :: home_request where
  "example_home =
     \<lparr>h_catalog = None, h_isAdmin = False, h_cookie = None, h_DISPLAY_CATEGORY = None\<rparr>"

definition row_tech :: home_row where
  "row_tech = \<lparr>hr_site = site_tech, hr_catelog = Some ''Tech''\<rparr>"

definition row_intranet :: home_row where
  "row_intranet = \<lparr>hr_site = site_intranet, hr_catelog = Some ''Work''\<rparr>"

definition row_news :: home_row where
  "row_news = \<lparr>hr_site = site_news, hr_catelog = Some ''Work''\<rparr>"




text \<open>The page of a response, if it is one.\<close>

definition page_of :: "home_response \<Rightarrow> home_page option" where
  "page_of r = (case r of Page pg \<Rightarrow> Some pg | HomeError msg e status \<Rightarrow> None)"

text \<open>
  A store with the random wallpaper enabled and a custom wallpaper configured, a request
  that carries the cookie \<open>wallpaper_index=1\<close>, and a runtime whose fetch of the feed
  gives a status that is not ok.
\<close>

definition wallpaper_db :: db where
  "wallpaper_db =
     example_db\<lparr>db_settings :=
       [(''layout_custom_wallpaper'', ''https://isabelle.in.tum.de/''),
        (''layout_random_wallpaper'', ''true''), (''bing_country'', ''us'')]\<rparr>"

definition cookie_home :: home_request where
  "cookie_home =
     \<lparr>h_catalog = None, h_isAdmin = False, h_cookie = Some ''a=1; wallpaper_index=1; b=2'',
      h_DISPLAY_CATEGORY = None\<rparr>"

definition offline_runtime :: runtime where
  "offline_runtime = example_runtime\<lparr>fetch := (\<lambda>u. NotOk)\<rparr>"


text \<open>
  Sites of the categories \<open>A\<close> and \<open>B\<close>: by the sort orders of the sites \<open>A\<close> would
  come first.
\<close>

definition row_a :: home_row where
  "row_a = \<lparr>hr_site = site_tech\<lparr>s_sort_order := Some 1\<rparr>, hr_catelog = Some ''A''\<rparr>"

definition row_b :: home_row where
  "row_b = \<lparr>hr_site = site_news\<lparr>s_sort_order := Some 7\<rparr>, hr_catelog = Some ''B''\<rparr>"

text \<open>
  Two stores with the same category table, whose categories \<open>news\<close> and \<open>News\<close> have the
  same declared order, and with the same two sites, one in each category, of the same
  sort order. The stores differ in the creation times of the sites only.
\<close>

definition tie_categories :: "category_row list" where
  "tie_categories =
     [\<lparr>c_id = 1, c_catelog = Some ''news'', c_is_private = Some 0, c_sort_order = Some 5\<rparr>,
      \<lparr>c_id = 2, c_catelog = Some ''News'', c_is_private = Some 0, c_sort_order = Some 5\<rparr>]"

definition tie_site :: "int \<Rightarrow> int \<Rightarrow> site_row" where
  "tie_site category created =
     \<lparr>s_id = category, s_name = Some ''Daily'', s_url = None, s_logo = None, s_desc = None,
      s_catelog_id = Some category, s_catelog_name = None, s_sort_order = Some 1,
      s_is_private = Some 0, s_create_time = Some created\<rparr>"

definition tie_db_lower_first :: db where
  "tie_db_lower_first =
     \<lparr>db_sites = [tie_site 1 20, tie_site 2 10], db_category = Some tie_categories,
      db_settings = []\<rparr>"

definition tie_db_upper_first :: db where
  "tie_db_upper_first =
     \<lparr>db_sites = [tie_site 1 10, tie_site 2 20], db_category = Some tie_categories,
      db_settings = []\<rparr>"

definition tie_rows_lower_first :: "home_row list" where
  "tie_rows_lower_first =
     [\<lparr>hr_site = tie_site 1 20, hr_catelog = Some ''news''\<rparr>,
      \<lparr>hr_site = tie_site 2 10, hr_catelog = Some ''News''\<rparr>]"

definition tie_rows_upper_first :: "home_row list" where
  "tie_rows_upper_first =
     [\<lparr>hr_site = tie_site 2 20, hr_catelog = Some ''News''\<rparr>,
      \<lparr>hr_site = tie_site 1 10, hr_catelog = Some ''news''\<rparr>]"

definition tie_orders :: "string option \<rightharpoonup> int" where
  "tie_orders = categoryOrderMap [(Some ''news'', Some 5), (Some ''News'', Some 5)]"

section \<open>Properties\<close>

declare decimal.simps [simp del]

subsection \<open>Sorting and paging\<close>

lemma mset_insert_by: "mset (insert_by le x ys) = add_mset x (mset ys)"
  by (induction ys) auto

lemma mset_sort_by: "mset (sort_by le xs) = mset xs"
  by (induction xs) (auto simp: sort_by_def mset_insert_by)

lemma set_sort_by: "set (sort_by le xs) = set xs"
  using mset_sort_by [of le xs] by (metis set_mset_mset)

lemma length_sort_by: "length (sort_by le xs) = length xs"
  using mset_sort_by [of le xs] by (metis size_mset)

lemma set_sql_limit: "set (sql_limit l off rows) \<subseteq> set rows"
  by (auto simp: sql_limit_def Let_def dest: in_set_dropD in_set_takeD)

lemma parseInt_1: "parseInt ''1'' = Some 1"
  by (simp add: parseInt_def is_space_def is_digit_def digits_value_def digit_value_def)

lemma parseInt_1000: "parseInt ''1000'' = Some 1000"
  by (simp add: parseInt_def is_space_def is_digit_def digits_value_def digit_value_def)

subsection \<open>The list operation\<close>




lemmas example_sites_defs = site_tech_def site_intranet_def site_news_def

lemma onRequestGet_rows:
  assumes "onRequestGet eng d req = (JsonResponse body, sent)"
  shows "set (r_data body) \<subseteq>
    set (filter (queryBase eng (if q_isAdmin req then 1 else 0) (q_catalogId req)
          (q_catalog req) (q_keyword req)) (db_sites d))"
  using assms set_sql_limit
  by (auto simp: onRequestGet_def Let_def order_by_sort_def set_sort_by
      split: option.splits prod.splits dest!: set_mp [OF set_sql_limit])

lemma queryBase_admin:
  "queryBase eng 1 cid cat kw = (\<lambda>s. catalog_filter eng cid cat s \<and> keyword_filter eng kw s)"
  by (rule ext) (simp add: queryBase_def visible_def)

lemma load_sites_rows:
  assumes "load_sites d ip = Inr rows" and "r \<in> set rows"
  shows "hr_site r \<in> set (db_sites d) \<and> visible ip (hr_site r)"
  using assms
  by (auto simp: load_sites_def set_sort_by join_category_def split: option.splits)

lemma set_currentSites: "set (currentSites rc cs sites) \<subseteq> set sites"
  by (auto simp: currentSites_def)

lemma onRequest_Page:
  assumes "onRequest rt d req = Page pg"
  shows "\<exists>sites orders. load_sites d (if h_isAdmin req then 1 else 0) = Inr sites \<and>
     category_orders d = Inr orders \<and> pg = render_page rt d req sites orders"
  using assms by (auto simp: onRequest_def split: sum.splits)

lemma render_page_sites: "set (pg_currentSites (render_page rt d req sites orders)) \<subseteq> set sites"
  by (simp add: render_page_def Let_def set_currentSites)

text \<open>
  C2. For a caller who is not the admin, every row the list operation returns has
  \<open>is_private = 0\<close>, whatever the catalog, catalogId, keyword and paging parameters, and
  so has every row of the homepage's data load and every site the page shows: a row with
  \<open>is_private = 1\<close> never appears. For the admin the list operation pages through all
  rows that pass the category and keyword filters, and the homepage loads every site
  joined to its category, private ones included.
\<close>

theorem private_sites_hidden:
  "(\<not> q_isAdmin req \<longrightarrow> onRequestGet eng d req = (JsonResponse body, sent) \<longrightarrow>
      (\<forall>s \<in> set (r_data body). s_is_private s = Some 0)) \<and>
   (load_sites d 0 = Inr rows \<longrightarrow> (\<forall>r \<in> set rows. s_is_private (hr_site r) = Some 0)) \<and>
   (\<not> h_isAdmin hreq \<longrightarrow> onRequest rt d hreq = Page pg \<longrightarrow>
      (\<forall>r \<in> set (pg_currentSites pg). s_is_private (hr_site r) = Some 0)) \<and>
   (q_isAdmin req \<longrightarrow> onRequestGet eng d req = (JsonResponse body, sent) \<longrightarrow>
      r_data body =
        sql_limit (r_pageSize body) ((r_page body - 1) * r_pageSize body)
          (order_by_sort
             (filter (\<lambda>s. catalog_filter eng (q_catalogId req) (q_catalog req) s \<and>
                          keyword_filter eng (q_keyword req) s) (db_sites d)))) \<and>
   (h_isAdmin hreq \<longrightarrow> onRequest rt d hreq = Page pg \<longrightarrow>
      (\<exists>cats. db_category d = Some cats \<and>
         load_sites d 1 = Inr (sort_by home_le (concat (map (join_category cats) (db_sites d)))) \<and>
         pg_totalSites pg = length (concat (map (join_category cats) (db_sites d)))))"
proof (intro conjI impI)
  assume "\<not> q_isAdmin req" and "onRequestGet eng d req = (JsonResponse body, sent)"
  then show "\<forall>s \<in> set (r_data body). s_is_private s = Some 0"
    using onRequestGet_rows [of eng d req body sent]
    by (auto simp: queryBase_def visible_def)
next
  assume "load_sites d 0 = Inr rows"
  then show "\<forall>r \<in> set rows. s_is_private (hr_site r) = Some 0"
    using load_sites_rows [of d 0 rows] by (auto simp: visible_def)
next
  assume na: "\<not> h_isAdmin hreq" and pg: "onRequest rt d hreq = Page pg"
  from onRequest_Page [OF pg] na obtain sites orders where
    l: "load_sites d 0 = Inr sites" and p: "pg = render_page rt d hreq sites orders"
    by auto
  have "\<forall>r \<in> set sites. s_is_private (hr_site r) = Some 0"
    using load_sites_rows [OF l] by (auto simp: visible_def)
  moreover have "set (pg_currentSites pg) \<subseteq> set sites"
    unfolding p by (rule render_page_sites)
  ultimately show "\<forall>r \<in> set (pg_currentSites pg). s_is_private (hr_site r) = Some 0"
    by blast
next
  assume "q_isAdmin req" and "onRequestGet eng d req = (JsonResponse body, sent)"
  then show "r_data body =
        sql_limit (r_pageSize body) ((r_page body - 1) * r_pageSize body)
          (order_by_sort
             (filter (\<lambda>s. catalog_filter eng (q_catalogId req) (q_catalog req) s \<and>
                          keyword_filter eng (q_keyword req) s) (db_sites d)))"
    by (auto simp: onRequestGet_def Let_def queryBase_admin
        split: option.splits prod.splits)
next
  assume a: "h_isAdmin hreq" and pg: "onRequest rt d hreq = Page pg"
  from onRequest_Page [OF pg] a obtain sites orders where
    l: "load_sites d 1 = Inr sites" and p: "pg = render_page rt d hreq sites orders"
    by auto
  from l obtain cats where c: "db_category d = Some cats"
    and s: "sites = sort_by home_le (concat (map (join_category cats) (db_sites d)))"
    by (auto simp: load_sites_def visible_def split: option.splits)
  have "pg_totalSites pg = length (concat (map (join_category cats) (db_sites d)))"
    unfolding p s by (simp add: render_page_def Let_def length_sort_by)
  then show "\<exists>cats. db_category d = Some cats \<and>
         load_sites d 1 = Inr (sort_by home_le (concat (map (join_category cats) (db_sites d)))) \<and>
         pg_totalSites pg = length (concat (map (join_category cats) (db_sites d)))"
    using c l s by auto
qed

theorem private_sites_hidden_witness:
  "onRequestGet example_engine example_db example_get =
     (JsonResponse \<lparr>r_code = 200, r_data = [site_tech, site_news], r_total = 2,
        r_page = 1, r_pageSize = 1000\<rparr>, [PageQuery]) \<and>
   s_is_private site_tech = Some 0 \<and> s_is_private site_news = Some 0 \<and>
   s_is_private site_intranet = Some 1 \<and>
   onRequestGet example_engine example_db (example_get\<lparr>q_isAdmin := True\<rparr>) =
     (JsonResponse \<lparr>r_code = 200, r_data = [site_intranet, site_tech, site_news], r_total = 3,
        r_page = 1, r_pageSize = 1000\<rparr>, [PageQuery]) \<and>
   (\<exists>pg. onRequest example_runtime example_db example_home = Page pg \<and>
      list_all (\<lambda>r. s_is_private (hr_site r) = Some 0) (pg_currentSites pg)) \<and>
   (\<exists>pg. onRequest example_runtime example_db (example_home\<lparr>h_isAdmin := True\<rparr>) = Page pg \<and>
      pg_totalSites pg = 3)"
proof -
  have g: "onRequestGet example_engine example_db example_get =
     (JsonResponse \<lparr>r_code = 200, r_data = [site_tech, site_news], r_total = 2,
        r_page = 1, r_pageSize = 1000\<rparr>, [PageQuery])"
    by (simp add: onRequestGet_def Let_def example_get_def example_db_def or_else_def
        parseInt_1 parseInt_1000 queryBase_def visible_def catalog_filter_def
        keyword_filter_def truthy_text_def example_sites_defs order_by_sort_def sort_by_def
        site_le_def sql_limit_def report_total_def)
  have a: "onRequestGet example_engine example_db (example_get\<lparr>q_isAdmin := True\<rparr>) =
     (JsonResponse \<lparr>r_code = 200, r_data = [site_intranet, site_tech, site_news], r_total = 3,
        r_page = 1, r_pageSize = 1000\<rparr>, [PageQuery])"
    by (simp add: onRequestGet_def Let_def example_get_def example_db_def or_else_def
        parseInt_1 parseInt_1000 queryBase_def visible_def catalog_filter_def
        keyword_filter_def truthy_text_def example_sites_defs order_by_sort_def sort_by_def
        site_le_def sql_limit_def report_total_def)
  have l0: "load_sites example_db 0 =
      Inr [\<lparr>hr_site = site_tech, hr_catelog = Some ''Tech''\<rparr>,
           \<lparr>hr_site = site_news, hr_catelog = Some ''Work''\<rparr>]"
    by (simp add: load_sites_def example_db_def example_categories_def visible_def
        join_category_def example_sites_defs sort_by_def home_le_def site_le_def)
  have l1: "load_sites example_db 1 =
      Inr [\<lparr>hr_site = site_intranet, hr_catelog = Some ''Work''\<rparr>,
           \<lparr>hr_site = site_tech, hr_catelog = Some ''Tech''\<rparr>,
           \<lparr>hr_site = site_news, hr_catelog = Some ''Work''\<rparr>]"
    by (simp add: load_sites_def example_db_def example_categories_def visible_def
        join_category_def example_sites_defs sort_by_def home_le_def site_le_def)
  have o: "\<exists>orders. category_orders example_db = Inr orders"
    by (simp add: category_orders_def load_orders_def example_db_def)
  then obtain orders where o': "category_orders example_db = Inr orders" ..
  let ?pg0 = "render_page example_runtime example_db example_home
      [\<lparr>hr_site = site_tech, hr_catelog = Some ''Tech''\<rparr>,
       \<lparr>hr_site = site_news, hr_catelog = Some ''Work''\<rparr>] orders"
  let ?pg1 = "render_page example_runtime example_db (example_home\<lparr>h_isAdmin := True\<rparr>)
      [\<lparr>hr_site = site_intranet, hr_catelog = Some ''Work''\<rparr>,
       \<lparr>hr_site = site_tech, hr_catelog = Some ''Tech''\<rparr>,
       \<lparr>hr_site = site_news, hr_catelog = Some ''Work''\<rparr>] orders"
  have p0: "onRequest example_runtime example_db example_home = Page ?pg0"
    by (simp add: onRequest_def l0 o' example_home_def)
  have p1: "onRequest example_runtime example_db (example_home\<lparr>h_isAdmin := True\<rparr>) = Page ?pg1"
    by (simp add: onRequest_def l1 o' example_home_def)
  note t = private_sites_hidden [of example_get example_engine example_db _ _ _ example_home
      example_runtime ?pg0]
  note t1 = private_sites_hidden [of "example_get\<lparr>q_isAdmin := True\<rparr>" example_engine example_db _ _ _
      "example_home\<lparr>h_isAdmin := True\<rparr>" example_runtime ?pg1]
  from t [of _ "[PageQuery]"] g
  have "s_is_private site_tech = Some 0 \<and> s_is_private site_news = Some 0"
    by (simp add: example_get_def)
  moreover from t p0
  have "list_all (\<lambda>r. s_is_private (hr_site r) = Some 0) (pg_currentSites ?pg0)"
    by (auto simp: example_home_def list_all_iff)
  moreover from t1 p1 have "pg_totalSites ?pg1 = 3"
    by (auto simp: example_home_def example_db_def example_categories_def join_category_def
        example_sites_defs)
  moreover have "s_is_private site_intranet = Some 1"
    by (simp add: site_intranet_def)
  ultimately show ?thesis
    using g a p0 p1 by blast
qed

subsection \<open>The create operation\<close>









subsection \<open>Catalog selection\<close>



lemma pg_catalogs_render:
  "pg_catalogs (render_page rt d req sites orders) =
     map cm_name (catalogsWithMeta (localeCompare rt) (visit_sites sites) orders)"
  by (simp add: render_page_def Let_def)


lemma example_load_public: "load_sites example_db 0 = Inr [row_tech, row_news]"
  by (simp add: load_sites_def example_db_def example_categories_def visible_def
      join_category_def example_sites_defs sort_by_def home_le_def site_le_def
      row_tech_def row_news_def)

lemma example_orders:
  "category_orders example_db =
     Inr (categoryOrderMap [(Some ''Tech'', Some 2), (Some ''Work'', Some 1),
                            (Some ''Secret'', Some 3)])"
  by (simp add: category_orders_def load_orders_def example_db_def example_categories_def)











subsection \<open>Wallpaper rotation\<close>



lemma decimal_0: "decimal 0 = ''0''"
  by (simp add: decimal.simps)


lemma rotate_failed:
  assumes "layoutRandomWallpaper l"
    and "f (bingUrl (bingCountry l)) \<in> {FetchFailed, NotOk, NotJson, NotArray, Feed []}"
  shows "rotate_wallpaper f l cookie = (0, layoutCustomWallpaper l)"
  using assms by (auto simp: rotate_wallpaper_def)

lemma rotate_disabled:
  "\<not> layoutRandomWallpaper l \<Longrightarrow> rotate_wallpaper f l cookie = (0, layoutCustomWallpaper l)"
  by (simp add: rotate_wallpaper_def)

lemma render_page_wallpaper:
  "pg_set_cookie (render_page rt d req sites orders) =
     wallpaper_cookie (load_layout d) (fst (rotate_wallpaper (fetch rt) (load_layout d) (h_cookie req)))"
  "pg_wallpaper (render_page rt d req sites orders) =
     sanitizeUrl (parseURL rt) (Some (snd (rotate_wallpaper (fetch rt) (load_layout d) (h_cookie req))))"
  by (simp_all add: render_page_def Let_def)


lemma load_sites_settings [simp]: "load_sites (d\<lparr>db_settings := x\<rparr>) ip = load_sites d ip"
  by (simp add: load_sites_def split: option.splits)

lemma category_orders_settings [simp]:
  "category_orders (d\<lparr>db_settings := x\<rparr>) = category_orders d"
  by (simp add: category_orders_def load_orders_def split: option.splits)

lemma wallpaper_layout:
  "layoutRandomWallpaper (load_layout wallpaper_db)"
  "bingCountry (load_layout wallpaper_db) = ''us''"
  "layoutCustomWallpaper (load_layout wallpaper_db) = ''https://isabelle.in.tum.de/''"
  by (simp_all add: load_layout_def wallpaper_db_def apply_setting_def default_layout_def)

lemma cookie_index: "currentWallpaperIndex (h_cookie cookie_home) = 1"
  by (simp add: currentWallpaperIndex_def cookie_home_def or_else_def startsWith_def
      is_digit_def digits_value_def digit_value_def)

lemma wallpaper_page:
  "\<exists>sites orders. onRequest rt wallpaper_db cookie_home =
     Page (render_page rt wallpaper_db cookie_home sites orders)"
  by (auto simp: onRequest_def wallpaper_db_def example_load_public example_orders
      cookie_home_def)

lemma offline_page:
  "\<exists>sites orders. onRequest offline_runtime wallpaper_db cookie_home =
     Page (render_page offline_runtime wallpaper_db cookie_home sites orders)"
  by (rule wallpaper_page)



text \<open>
  C10. With the random wallpaper enabled, when the fetch of the feed fails, or gives a
  status that is not ok, or a body that is not JSON, not an array or an empty array,
  the page still sets the cookie, to \<open>wallpaper_index=0\<close> whatever index the request
  carried, and its wallpaper is the configured custom wallpaper (sanitized).
\<close>

theorem wallpaper_feed_failure:
  assumes "onRequest rt d req = Page pg"
    and "layoutRandomWallpaper (load_layout d)"
    and "fetch rt (bingUrl (bingCountry (load_layout d)))
           \<in> {FetchFailed, NotOk, NotJson, NotArray, Feed []}"
  shows "pg_set_cookie pg = Some ''wallpaper_index=0; Path=/; Max-Age=31536000; SameSite=Lax'' \<and>
    pg_wallpaper pg = sanitizeUrl (parseURL rt) (Some (layoutCustomWallpaper (load_layout d)))"
proof -
  from onRequest_Page [OF assms(1)] obtain sites orders where
    p: "pg = render_page rt d req sites orders"
    by blast
  show ?thesis
    unfolding p render_page_wallpaper
      rotate_failed [of "load_layout d" "fetch rt", OF assms(2,3)]
    using assms(2) by (simp add: wallpaper_cookie_def decimal_0)
qed

theorem wallpaper_feed_failure_witness:
  "layoutRandomWallpaper (load_layout wallpaper_db) \<and>
   fetch offline_runtime (bingUrl (bingCountry (load_layout wallpaper_db))) = NotOk \<and>
   currentWallpaperIndex (h_cookie cookie_home) = 1 \<and>
   map_option pg_set_cookie (page_of (onRequest offline_runtime wallpaper_db cookie_home)) =
     Some (Some ''wallpaper_index=0; Path=/; Max-Age=31536000; SameSite=Lax'') \<and>
   map_option pg_wallpaper (page_of (onRequest offline_runtime wallpaper_db cookie_home)) =
     Some ''https://isabelle.in.tum.de/''"
proof -
  from offline_page obtain sites orders where
    p: "onRequest offline_runtime wallpaper_db cookie_home =
      Page (render_page offline_runtime wallpaper_db cookie_home sites orders)"
    by blast
  let ?pg = "render_page offline_runtime wallpaper_db cookie_home sites orders"
  have f: "fetch offline_runtime (bingUrl (bingCountry (load_layout wallpaper_db))) = NotOk"
    by (simp add: offline_runtime_def)
  then have m: "fetch offline_runtime (bingUrl (bingCountry (load_layout wallpaper_db)))
      \<in> {FetchFailed, NotOk, NotJson, NotArray, Feed []}"
    by simp
  from wallpaper_feed_failure [OF p wallpaper_layout(1) m]
  have "pg_set_cookie ?pg = Some ''wallpaper_index=0; Path=/; Max-Age=31536000; SameSite=Lax'' \<and>
      pg_wallpaper ?pg = ''https://isabelle.in.tum.de/''"
    by (simp add: wallpaper_layout sanitizeUrl_def truthy_text_def or_else_def trim_def
        is_space_def offline_runtime_def example_runtime_def example_parse_def)
  then show ?thesis
    using f cookie_index wallpaper_layout(1) by (simp add: p page_of_def)
qed

subsection \<open>Sanitized URLs and site cards\<close>










subsection \<open>The category menu\<close>

paragraph \<open>Stable sorting by a total preorder\<close>

lemma set_insert_by: "set (insert_by le x ys) = insert x (set ys)"
  using mset_insert_by [of le x ys] by (metis set_mset_add_mset_insert set_mset_mset)

lemma sorted_insert_by:
  assumes "\<And>a b. le a b \<or> le b a"
    and "\<And>a b c. le a b \<Longrightarrow> le b c \<Longrightarrow> le a c"
    and "sorted_wrt le ys"
  shows "sorted_wrt le (insert_by le x ys)"
  using assms(3)
proof (induction ys)
  case Nil
  then show ?case by simp
next
  case (Cons y ys)
  show ?case
  proof (cases "le x y")
    case True
    with Cons.prems assms(2) show ?thesis by auto
  next
    case False
    with assms(1) have "le y x" by blast
    with False Cons show ?thesis by (auto simp: set_insert_by)
  qed
qed

lemma sorted_sort_by:
  assumes "\<And>a b. le a b \<or> le b a"
    and "\<And>a b c. le a b \<Longrightarrow> le b c \<Longrightarrow> le a c"
  shows "sorted_wrt le (sort_by le xs)"
proof (induction xs)
  case Nil
  then show ?case by (simp add: sort_by_def)
next
  case (Cons x xs)
  have "sort_by le (x # xs) = insert_by le x (sort_by le xs)"
    by (simp add: sort_by_def)
  with Cons sorted_insert_by [OF assms] show ?case by simp
qed

lemma filter_insert_by_in:
  assumes "P x" and "\<And>y. y \<in> set ys \<Longrightarrow> P y \<Longrightarrow> le x y"
  shows "filter P (insert_by le x ys) = x # filter P ys"
  using assms by (induction ys) auto

lemma filter_insert_by_out:
  assumes "\<not> P x"
  shows "filter P (insert_by le x ys) = filter P ys"
  using assms by (induction ys) auto

lemma sort_by_stable:
  assumes "\<And>x y. P x \<Longrightarrow> P y \<Longrightarrow> le x y"
  shows "filter P (sort_by le xs) = filter P xs"
proof (induction xs)
  case Nil
  then show ?case by (simp add: sort_by_def)
next
  case (Cons x xs)
  have s: "sort_by le (x # xs) = insert_by le x (sort_by le xs)"
    by (simp add: sort_by_def)
  show ?case
  proof (cases "P x")
    case True
    then have "filter P (insert_by le x (sort_by le xs)) = x # filter P (sort_by le xs)"
      using assms by (intro filter_insert_by_in) simp_all
    with True Cons s show ?thesis by simp
  next
    case False
    with Cons s show ?thesis by (simp add: filter_insert_by_out)
  qed
qed

paragraph \<open>The comparator\<close>

lemma compareMeta_le:
  "(compareMeta lc a b \<le> 0) =
     (cm_order a < cm_order b \<or>
      (cm_order a = cm_order b \<and>
       (cm_fallback a < cm_fallback b \<or>
        (cm_fallback a = cm_fallback b \<and> lc (cm_name a) (cm_name b) \<le> 0))))"
  by (auto simp: compareMeta_def)

lemma compareMeta_total:
  assumes "\<And>a b. lc a b \<le> 0 \<or> lc b a \<le> 0"
  shows "compareMeta lc a b \<le> 0 \<or> compareMeta lc b a \<le> 0"
  using assms [of "cm_name a" "cm_name b"] unfolding compareMeta_le by auto

lemma compareMeta_trans:
  assumes "\<And>a b c. lc a b \<le> 0 \<Longrightarrow> lc b c \<le> 0 \<Longrightarrow> lc a c \<le> 0"
    and "compareMeta lc a b \<le> 0" and "compareMeta lc b c \<le> 0"
  shows "compareMeta lc a c \<le> 0"
  using assms(2,3) assms(1) [of "cm_name a" "cm_name b" "cm_name c"]
  unfolding compareMeta_le by auto

paragraph \<open>The loop over the sites\<close>

lemma visit_sites_snoc: "visit_sites (sites @ [s]) = visit_site (visit_sites sites) s"
  by (simp add: visit_sites_def)

lemma categorySet_visit:
  "set (categorySet (visit_sites sites)) = categoryName ` set sites \<and>
   distinct (categorySet (visit_sites sites))"
proof (induction sites rule: rev_induct)
  case Nil
  then show ?case by (simp add: visit_sites_def)
next
  case (snoc s sites)
  then show ?case
    by (auto simp: visit_sites_snoc visit_site_def Let_def set_add_def)
qed

lemma categoryMinSort_visit:
  "categoryMinSort (visit_sites sites) name =
     (if name \<in> categoryName ` set sites
      then Some (Min (normalized_sort ` {s \<in> set sites. categoryName s = name}))
      else None)"
proof (induction sites rule: rev_induct)
  case Nil
  then show ?case by (simp add: visit_sites_def)
next
  case (snoc s sites)
  let ?old = "{r \<in> set sites. categoryName r = name}"
  show ?case
  proof (cases "categoryName s = name")
    case False
    then have "{r \<in> set (sites @ [s]). categoryName r = name} = ?old" by auto
    with False snoc show ?thesis
      by (auto simp: visit_sites_snoc visit_site_def Let_def split: option.splits)
  next
    case True
    then have e: "{r \<in> set (sites @ [s]). categoryName r = name} = insert s ?old" by auto
    show ?thesis
    proof (cases "name \<in> categoryName ` set sites")
      case False
      then have "?old = {}" by auto
      with True False snoc e show ?thesis
        by (auto simp: visit_sites_snoc visit_site_def Let_def)
    next
      case In: True
      then have ne: "?old \<noteq> {}" by auto
      have fin: "finite (normalized_sort ` ?old)" by simp
      have "Min (normalized_sort ` insert s ?old) =
          min (normalized_sort s) (Min (normalized_sort ` ?old))"
        using ne fin by (simp add: Min_insert)
      with True In snoc e show ?thesis
        by (auto simp: visit_sites_snoc visit_site_def Let_def min_def)
    qed
  qed
qed

lemma categorySet_first_seen:
  "categorySet (visit_sites sites) = rev (remdups (rev (map categoryName sites)))"
proof (induction sites rule: rev_induct)
  case Nil
  then show ?case by (simp add: visit_sites_def)
next
  case (snoc s sites)
  have "set (categorySet (visit_sites sites)) = categoryName ` set sites"
    using categorySet_visit [of sites] by simp
  with snoc show ?case
    by (auto simp: visit_sites_snoc visit_site_def Let_def set_add_def)
qed

lemma meta_of_fields:
  "cm_name (meta_of st orders name) = name"
  "cm_fallback (meta_of st orders name) =
     (case categoryMinSort st name of Some m \<Rightarrow> m | None \<Rightarrow> 9999)"
  "cm_order (meta_of st orders name) =
     (case orders (Some name) of
        Some v \<Rightarrow> v
      | None \<Rightarrow> cm_fallback (meta_of st orders name))"
  by (simp_all add: meta_of_def Let_def normalizeSortOrder_def split: option.splits)

lemma menu_names:
  "mset (map cm_name (catalogsWithMeta lc st orders)) = mset (categorySet st)"
proof -
  have "mset (catalogsWithMeta lc st orders) = mset (map (meta_of st orders) (categorySet st))"
    by (simp add: catalogsWithMeta_def mset_sort_by)
  then have "mset (map cm_name (catalogsWithMeta lc st orders)) =
      mset (map cm_name (map (meta_of st orders) (categorySet st)))"
    by (metis mset_map)
  also have "map cm_name (map (meta_of st orders) (categorySet st)) = categorySet st"
    by (simp add: meta_of_fields comp_def)
  finally show ?thesis .
qed

lemma menu_entry:
  assumes "m \<in> set (catalogsWithMeta lc (visit_sites sites) orders)"
  shows "cm_name m \<in> categoryName ` set sites"
    and "cm_fallback m = Min (normalized_sort ` {s \<in> set sites. categoryName s = cm_name m})"
    and "cm_order m = (case orders (Some (cm_name m)) of Some v \<Rightarrow> v | None \<Rightarrow> cm_fallback m)"
proof -
  from assms obtain name where n: "name \<in> set (categorySet (visit_sites sites))"
    and m: "m = meta_of (visit_sites sites) orders name"
    by (auto simp: catalogsWithMeta_def set_sort_by)
  from n have i: "name \<in> categoryName ` set sites"
    using categorySet_visit [of sites] by simp
  then show "cm_name m \<in> categoryName ` set sites"
    by (simp add: m meta_of_fields)
  show "cm_fallback m = Min (normalized_sort ` {s \<in> set sites. categoryName s = cm_name m})"
    using i by (simp add: m meta_of_fields categoryMinSort_visit)
  show "cm_order m = (case orders (Some (cm_name m)) of Some v \<Rightarrow> v | None \<Rightarrow> cm_fallback m)"
    unfolding m by (simp add: meta_of_fields split: option.splits)
qed

lemma menu_sorted:
  assumes "\<forall>a b. lc a b \<le> 0 \<or> lc b a \<le> 0"
    and "\<forall>a b c. lc a b \<le> 0 \<and> lc b c \<le> 0 \<longrightarrow> lc a c \<le> 0"
  shows "sorted_wrt (\<lambda>a b. compareMeta lc a b \<le> 0) (catalogsWithMeta lc st orders)"
  unfolding catalogsWithMeta_def
proof (rule sorted_sort_by)
  show "\<And>a b. compareMeta lc a b \<le> 0 \<or> compareMeta lc b a \<le> 0"
    using assms(1) by (intro compareMeta_total) blast
  fix a b c
  assume "compareMeta lc a b \<le> 0" and "compareMeta lc b c \<le> 0"
  then show "compareMeta lc a c \<le> 0"
    using compareMeta_trans [of lc a b c] assms(2) by blast
qed

lemma menu_stable:
  assumes "\<forall>a b c. lc a b \<le> 0 \<and> lc b c \<le> 0 \<longrightarrow> lc a c \<le> 0"
  shows "filter (\<lambda>m. compareMeta lc z m \<le> 0 \<and> compareMeta lc m z \<le> 0)
           (catalogsWithMeta lc st orders) =
         filter (\<lambda>m. compareMeta lc z m \<le> 0 \<and> compareMeta lc m z \<le> 0)
           (map (meta_of st orders) (categorySet st))"
  unfolding catalogsWithMeta_def
proof (rule sort_by_stable)
  fix x y
  assume "compareMeta lc z x \<le> 0 \<and> compareMeta lc x z \<le> 0"
    and "compareMeta lc z y \<le> 0 \<and> compareMeta lc y z \<le> 0"
  then show "compareMeta lc x y \<le> 0"
    using compareMeta_trans [of lc x z y] assms by blast
qed

lemma two_names:
  assumes "distinct xs" and "set xs = {a, b}" and "a \<noteq> b"
  shows "xs = [a, b] \<or> xs = [b, a]"
proof -
  from assms have "length xs = 2"
    by (metis card_2_iff distinct_card)
  then obtain x y where xs: "xs = [x, y]"
    by (auto simp: length_Suc_conv numeral_2_eq_2)
  with assms show ?thesis by auto
qed

lemma menu_example:
  assumes "\<forall>a b. lc a b \<le> 0 \<or> lc b a \<le> 0"
    and "\<forall>a b c. lc a b \<le> 0 \<and> lc b c \<le> 0 \<longrightarrow> lc a c \<le> 0"
    and "categoryName ` set sites = {''A'', ''B''}"
  shows "map cm_name (catalogsWithMeta lc (visit_sites sites)
           (categoryOrderMap [(Some ''A'', Some 2), (Some ''B'', Some 1)])) = [''B'', ''A'']"
proof -
  let ?orders = "categoryOrderMap [(Some ''A'', Some 2), (Some ''B'', Some 1)]"
  let ?menu = "catalogsWithMeta lc (visit_sites sites) ?orders"
  have o: "?orders (Some ''A'') = Some 2" "?orders (Some ''B'') = Some 1"
    by (simp_all add: categoryOrderMap_def normalizeSortOrder_def column_value_def)
  have d: "distinct (map cm_name ?menu)"
    using menu_names [of lc "visit_sites sites" ?orders] categorySet_visit [of sites]
    by (metis mset_eq_imp_distinct_iff)
  have s: "set (map cm_name ?menu) = {''A'', ''B''}"
    using menu_names [of lc "visit_sites sites" ?orders] categorySet_visit [of sites] assms(3)
    by (metis mset_eq_setD)
  have "map cm_name ?menu \<noteq> [''A'', ''B'']"
  proof
    assume c: "map cm_name ?menu = [''A'', ''B'']"
    then obtain x y where m: "?menu = [x, y]" and x: "cm_name x = ''A''" and y: "cm_name y = ''B''"
      by auto
    have "x \<in> set ?menu" "y \<in> set ?menu" using m by simp_all
    then have "cm_order x = 2" "cm_order y = 1"
      using menu_entry(3) [of x lc sites ?orders] menu_entry(3) [of y lc sites ?orders]
      by (simp_all add: x y o)
    moreover have "compareMeta lc x y \<le> 0"
      using menu_sorted [OF assms(1,2), of "visit_sites sites" ?orders] unfolding m by simp
    ultimately show False by (simp add: compareMeta_le)
  qed
  with two_names [OF d s] show ?thesis by auto
qed

lemma sorted_wrt_unique:
  assumes "sorted_wrt R xs" and "sorted_wrt R ys" and "distinct xs" and "distinct ys"
    and "set xs = set ys"
    and "\<And>a b. a \<in> set xs \<Longrightarrow> b \<in> set xs \<Longrightarrow> R a b \<Longrightarrow> R b a \<Longrightarrow> a = b"
  shows "xs = ys"
  using assms
proof (induction xs arbitrary: ys)
  case Nil
  then show ?case by simp
next
  case (Cons x xs)
  from Cons.prems(5) obtain y ys' where ys: "ys = y # ys'"
    by (cases ys) auto
  have xy: "x = y"
  proof (rule ccontr)
    assume n: "x \<noteq> y"
    with Cons.prems(5) ys have "x \<in> set ys'" and "y \<in> set xs" by auto
    with Cons.prems(1,2) ys have "R y x" and "R x y" by auto
    with Cons.prems(6) [of x y] \<open>y \<in> set xs\<close> n show False by auto
  qed
  with Cons.prems(3,4,5) ys have "set xs = set ys'" by auto
  with Cons.IH [of ys'] Cons.prems ys xy show ?case by auto
qed

lemma menu_determined:
  assumes tot: "\<forall>a b. lc a b \<le> 0 \<or> lc b a \<le> 0"
    and tr: "\<forall>a b c. lc a b \<le> 0 \<and> lc b c \<le> 0 \<longrightarrow> lc a c \<le> 0"
    and anti: "\<forall>a \<in> categoryName ` set sites. \<forall>b \<in> categoryName ` set sites.
                 lc a b \<le> 0 \<and> lc b a \<le> 0 \<longrightarrow> a = b"
    and same: "set (map (\<lambda>m. (cm_name m, cm_order m, cm_fallback m))
                     (catalogsWithMeta lc (visit_sites sites) orders)) =
               set (map (\<lambda>m. (cm_name m, cm_order m, cm_fallback m))
                     (catalogsWithMeta lc (visit_sites sites') orders'))"
  shows "map (\<lambda>m. (cm_name m, cm_order m, cm_fallback m))
           (catalogsWithMeta lc (visit_sites sites) orders) =
         map (\<lambda>m. (cm_name m, cm_order m, cm_fallback m))
           (catalogsWithMeta lc (visit_sites sites') orders')"
proof -
  let ?t = "\<lambda>m. (cm_name m, cm_order m, cm_fallback m)"
  let ?R = "\<lambda>(n, ord, fb) (n', ord', fb').
     ord < ord' \<or> (ord = ord' \<and> (fb < fb' \<or> (fb = fb' \<and> lc n n' \<le> (0::int))))"
  let ?M = "catalogsWithMeta lc (visit_sites sites) orders"
  let ?M' = "catalogsWithMeta lc (visit_sites sites') orders'"
  have R: "\<And>a b. ?R (?t a) (?t b) = (compareMeta lc a b \<le> 0)"
    by (simp add: compareMeta_le)
  have s: "\<And>st o'. sorted_wrt ?R (map ?t (catalogsWithMeta lc st o'))"
    using menu_sorted [OF tot tr] by (simp add: sorted_wrt_map compareMeta_le)
  have d: "\<And>ss o'. distinct (map ?t (catalogsWithMeta lc (visit_sites ss) o'))"
  proof -
    fix ss o'
    have "distinct (map cm_name (catalogsWithMeta lc (visit_sites ss) o'))"
      using menu_names [of lc "visit_sites ss" o'] categorySet_visit [of ss]
      by (metis mset_eq_imp_distinct_iff)
    then have "distinct (map fst (map ?t (catalogsWithMeta lc (visit_sites ss) o')))"
      by (simp add: comp_def)
    then show "distinct (map ?t (catalogsWithMeta lc (visit_sites ss) o'))"
      using distinct_map by blast
  qed
  have n: "\<And>a. a \<in> set (map ?t ?M) \<Longrightarrow> fst a \<in> categoryName ` set sites"
    using menu_entry(1) [of _ lc sites orders] by auto
  show ?thesis
  proof (rule sorted_wrt_unique [where R = ?R])
    show "sorted_wrt ?R (map ?t ?M)" by (rule s)
    show "sorted_wrt ?R (map ?t ?M')" by (rule s)
    show "distinct (map ?t ?M)" by (rule d)
    show "distinct (map ?t ?M')" by (rule d)
    show "set (map ?t ?M) = set (map ?t ?M')" by (rule same)
  next
    fix a b
    assume a: "a \<in> set (map ?t ?M)" and b: "b \<in> set (map ?t ?M)"
      and ab: "?R a b" and ba: "?R b a"
    obtain n1 o1 f1 where a': "a = (n1, o1, f1)" by (cases a)
    obtain n2 o2 f2 where b': "b = (n2, o2, f2)" by (cases b)
    from ab ba have e: "o1 = o2 \<and> f1 = f2 \<and> lc n1 n2 \<le> 0 \<and> lc n2 n1 \<le> 0"
      unfolding a' b' by auto
    from n [OF a] n [OF b] have "n1 \<in> categoryName ` set sites" "n2 \<in> categoryName ` set sites"
      by (simp_all add: a' b')
    with anti e have "n1 = n2" by blast
    with e show "a = b" by (simp add: a' b')
  qed
qed

lemma of_char_inj: "(of_char x :: nat) = of_char y \<Longrightarrow> x = y"
  by simp

lemma text_less_total: "text_less x y \<or> x = y \<or> text_less y x"
proof (induction x y rule: text_less.induct)
  case (1 xs)
  then show ?case by (cases xs) auto
next
  case (2 y ys)
  then show ?case by simp
next
  case (3 x xs y ys)
  then show ?case
    using of_char_inj [of x y] by (cases "(of_char x :: nat) < of_char y") auto
qed

lemma text_less_trans: "text_less x y \<Longrightarrow> text_less y z \<Longrightarrow> text_less x z"
proof (induction x y arbitrary: z rule: text_less.induct)
  case (1 xs)
  then show ?case by simp
next
  case (2 y ys)
  then show ?case by (cases z) auto
next
  case (3 x xs y ys)
  then show ?case by (cases z) auto
qed

lemma base_compare_le:
  "(base_compare a b \<le> 0) =
     (toLowerCase a = toLowerCase b \<or> text_less (toLowerCase a) (toLowerCase b))"
  by (simp add: base_compare_def)

lemma base_compare_total: "\<forall>a b. base_compare a b \<le> 0 \<or> base_compare b a \<le> 0"
  using text_less_total by (auto simp: base_compare_le)

lemma base_compare_trans:
  "\<forall>a b c. base_compare a b \<le> 0 \<and> base_compare b c \<le> 0 \<longrightarrow> base_compare a c \<le> 0"
  using text_less_trans by (auto simp: base_compare_le)

lemma meta_key_eq: "meta_key = (\<lambda>m. (cm_name m, cm_order m, cm_fallback m))"
  by (rule ext) (simp add: meta_key_def)

text \<open>
  C5, as the code has it. Let the comparison of names be total and transitive, as a
  collation is. The menu has one entry for each category name among the loaded sites.
  The fallback of an entry is the least normalized sort order of the sites of its
  category, and its order is the declared order of the category table if the table has
  the name, else the fallback. The menu is sorted by order, then by fallback, then by the
  comparison of the names. Entries that tie on all three keep the order in which their
  categories first appear among the loaded sites. So the menu is a function of the three
  keys alone whenever the comparison ties no two category names: two loads with the same
  keys then give the same menu. With the category table \<open>A: 2\<close>, \<open>B: 1\<close> and sites of
  \<open>A\<close> and \<open>B\<close> only, the menu is \<open>B\<close>, \<open>A\<close>.
\<close>

theorem category_menu_order:
  assumes "\<forall>a b. lc a b \<le> 0 \<or> lc b a \<le> 0"
    and "\<forall>a b c. lc a b \<le> 0 \<and> lc b c \<le> 0 \<longrightarrow> lc a c \<le> 0"
  shows
    "sorted_wrt
       (\<lambda>a b. cm_order a < cm_order b \<or>
          (cm_order a = cm_order b \<and>
           (cm_fallback a < cm_fallback b \<or>
            (cm_fallback a = cm_fallback b \<and> lc (cm_name a) (cm_name b) \<le> 0))))
       (catalogsWithMeta lc (visit_sites sites) orders) \<and>
     distinct (map cm_name (catalogsWithMeta lc (visit_sites sites) orders)) \<and>
     set (map cm_name (catalogsWithMeta lc (visit_sites sites) orders)) =
       categoryName ` set sites \<and>
     (\<forall>m \<in> set (catalogsWithMeta lc (visit_sites sites) orders).
        cm_fallback m = Min (normalized_sort ` {s \<in> set sites. categoryName s = cm_name m}) \<and>
        cm_order m = (case orders (Some (cm_name m)) of Some v \<Rightarrow> v | None \<Rightarrow> cm_fallback m)) \<and>
     (\<forall>z. filter (\<lambda>m. compareMeta lc z m \<le> 0 \<and> compareMeta lc m z \<le> 0)
             (catalogsWithMeta lc (visit_sites sites) orders) =
          filter (\<lambda>m. compareMeta lc z m \<le> 0 \<and> compareMeta lc m z \<le> 0)
             (map (meta_of (visit_sites sites) orders)
                (rev (remdups (rev (map categoryName sites)))))) \<and>
     ((\<forall>a \<in> categoryName ` set sites. \<forall>b \<in> categoryName ` set sites.
          lc a b \<le> 0 \<and> lc b a \<le> 0 \<longrightarrow> a = b) \<and>
      set (map meta_key
             (catalogsWithMeta lc (visit_sites sites) orders)) =
      set (map meta_key
             (catalogsWithMeta lc (visit_sites sites') orders'))
      \<longrightarrow> map meta_key
             (catalogsWithMeta lc (visit_sites sites) orders) =
          map meta_key
             (catalogsWithMeta lc (visit_sites sites') orders')) \<and>
     (categoryName ` set sites = {''A'', ''B''} \<longrightarrow>
        map cm_name (catalogsWithMeta lc (visit_sites sites)
          (categoryOrderMap [(Some ''A'', Some 2), (Some ''B'', Some 1)])) = [''B'', ''A''])"
proof (intro conjI)
  show "sorted_wrt
       (\<lambda>a b. cm_order a < cm_order b \<or>
          (cm_order a = cm_order b \<and>
           (cm_fallback a < cm_fallback b \<or>
            (cm_fallback a = cm_fallback b \<and> lc (cm_name a) (cm_name b) \<le> 0))))
       (catalogsWithMeta lc (visit_sites sites) orders)"
    using menu_sorted [OF assms, of "visit_sites sites" orders] by (simp add: compareMeta_le)
next
  show "distinct (map cm_name (catalogsWithMeta lc (visit_sites sites) orders))"
    using menu_names [of lc "visit_sites sites" orders] categorySet_visit [of sites]
    by (metis mset_eq_imp_distinct_iff)
next
  show "set (map cm_name (catalogsWithMeta lc (visit_sites sites) orders)) =
       categoryName ` set sites"
    using menu_names [of lc "visit_sites sites" orders] categorySet_visit [of sites]
    by (metis mset_eq_setD)
next
  show "\<forall>m \<in> set (catalogsWithMeta lc (visit_sites sites) orders).
        cm_fallback m = Min (normalized_sort ` {s \<in> set sites. categoryName s = cm_name m}) \<and>
        cm_order m = (case orders (Some (cm_name m)) of Some v \<Rightarrow> v | None \<Rightarrow> cm_fallback m)"
    using menu_entry(2,3) [of _ lc sites orders] by blast
next
  show "\<forall>z. filter (\<lambda>m. compareMeta lc z m \<le> 0 \<and> compareMeta lc m z \<le> 0)
             (catalogsWithMeta lc (visit_sites sites) orders) =
          filter (\<lambda>m. compareMeta lc z m \<le> 0 \<and> compareMeta lc m z \<le> 0)
             (map (meta_of (visit_sites sites) orders)
                (rev (remdups (rev (map categoryName sites)))))"
    using menu_stable [OF assms(2), of _ "visit_sites sites" orders]
    by (simp add: categorySet_first_seen)
next
  show "(\<forall>a \<in> categoryName ` set sites. \<forall>b \<in> categoryName ` set sites.
          lc a b \<le> 0 \<and> lc b a \<le> 0 \<longrightarrow> a = b) \<and>
      set (map meta_key
             (catalogsWithMeta lc (visit_sites sites) orders)) =
      set (map meta_key
             (catalogsWithMeta lc (visit_sites sites') orders'))
      \<longrightarrow> map meta_key
             (catalogsWithMeta lc (visit_sites sites) orders) =
          map meta_key
             (catalogsWithMeta lc (visit_sites sites') orders')"
    using menu_determined [OF assms, of sites orders sites' orders']
    unfolding meta_key_eq by blast
next
  show "categoryName ` set sites = {''A'', ''B''} \<longrightarrow>
        map cm_name (catalogsWithMeta lc (visit_sites sites)
          (categoryOrderMap [(Some ''A'', Some 2), (Some ''B'', Some 1)])) = [''B'', ''A'']"
    using menu_example [OF assms, of sites] by blast
qed

theorem category_menu_order_witness:
  "categoryName ` set [row_a, row_b] = {''A'', ''B''} \<and>
   normalized_sort row_a = 1 \<and> normalized_sort row_b = 7 \<and>
   map cm_name (catalogsWithMeta base_compare (visit_sites [row_a, row_b])
     (categoryOrderMap [(Some ''A'', Some 2), (Some ''B'', Some 1)])) = [''B'', ''A'']"
proof -
  have n: "categoryName ` set [row_a, row_b] = {''A'', ''B''}"
    by (simp add: categoryName_def row_a_def row_b_def or_else_def trim_def is_space_def)
  have s: "normalized_sort row_a = 1 \<and> normalized_sort row_b = 7"
    by (simp add: normalized_sort_def row_a_def row_b_def column_value_def)
  from category_menu_order [OF base_compare_total base_compare_trans, of "[row_a, row_b]"] n
  have "map cm_name (catalogsWithMeta base_compare (visit_sites [row_a, row_b])
     (categoryOrderMap [(Some ''A'', Some 2), (Some ''B'', Some 1)])) = [''B'', ''A'']"
    by blast
  with n s show ?thesis by blast
qed

lemma tie_load:
  "load_sites tie_db_lower_first 0 = Inr tie_rows_lower_first"
  "load_sites tie_db_upper_first 0 = Inr tie_rows_upper_first"
  by (simp_all add: load_sites_def tie_db_lower_first_def tie_db_upper_first_def
      tie_categories_def visible_def join_category_def tie_site_def sort_by_def home_le_def
      site_le_def tie_rows_lower_first_def tie_rows_upper_first_def)

lemma tie_category_orders:
  "category_orders tie_db_lower_first = Inr tie_orders"
  "category_orders tie_db_upper_first = Inr tie_orders"
  by (simp_all add: category_orders_def load_orders_def tie_db_lower_first_def
      tie_db_upper_first_def tie_categories_def tie_orders_def)

lemma base_compare_tie:
  "base_compare ''news'' ''News'' = 0" "base_compare ''News'' ''news'' = 0"
  by (simp_all add: base_compare_def toLowerCase_def toLowerChar_def)

lemma tie_menus:
  "map meta_key (catalogsWithMeta base_compare (visit_sites tie_rows_lower_first) tie_orders) =
     [(''news'', 5, 1), (''News'', 5, 1)]"
  "map meta_key (catalogsWithMeta base_compare (visit_sites tie_rows_upper_first) tie_orders) =
     [(''News'', 5, 1), (''news'', 5, 1)]"
  by (simp_all add: catalogsWithMeta_def visit_sites_def visit_site_def Let_def
      categoryName_def or_else_def trim_def is_space_def set_add_def normalized_sort_def
      column_value_def tie_site_def sort_by_def meta_of_def categoryOrderMap_def
      normalizeSortOrder_def compareMeta_def base_compare_tie tie_rows_lower_first_def
      tie_rows_upper_first_def tie_orders_def meta_key_def)

lemma tie_pages:
  "onRequest example_runtime tie_db_lower_first example_home =
     Page (render_page example_runtime tie_db_lower_first example_home tie_rows_lower_first
             tie_orders)"
  "onRequest example_runtime tie_db_upper_first example_home =
     Page (render_page example_runtime tie_db_upper_first example_home tie_rows_upper_first
             tie_orders)"
  by (simp_all add: onRequest_def example_home_def tie_load tie_category_orders)

lemma names_of_keys: "map cm_name ms = map fst (map meta_key ms)"
  by (simp add: meta_key_def comp_def)

text \<open>
  As the specification words it, the property fails: the menu is not a function of the declared order,
  the least sort order and the name alone. The comparison with base sensitivity ties
  \<open>news\<close> and \<open>News\<close>; the two stores give both categories the same keys, and the menu
  lists first the category of the site that was created last.
\<close>

theorem category_menu_order_counterexample:
  "db_category tie_db_lower_first = db_category tie_db_upper_first \<and>
   base_compare ''news'' ''News'' = 0 \<and>
   load_sites tie_db_lower_first 0 = Inr tie_rows_lower_first \<and>
   load_sites tie_db_upper_first 0 = Inr tie_rows_upper_first \<and>
   map meta_key (catalogsWithMeta base_compare (visit_sites tie_rows_lower_first) tie_orders) =
     [(''news'', 5, 1), (''News'', 5, 1)] \<and>
   map meta_key (catalogsWithMeta base_compare (visit_sites tie_rows_upper_first) tie_orders) =
     [(''News'', 5, 1), (''news'', 5, 1)] \<and>
   map_option pg_catalogs (page_of (onRequest example_runtime tie_db_lower_first example_home)) =
     Some [''news'', ''News''] \<and>
   map_option pg_catalogs (page_of (onRequest example_runtime tie_db_upper_first example_home)) =
     Some [''News'', ''news'']"
proof -
  have "db_category tie_db_lower_first = db_category tie_db_upper_first"
    by (simp add: tie_db_lower_first_def tie_db_upper_first_def)
  moreover have "localeCompare example_runtime = base_compare"
    by (simp add: example_runtime_def)
  ultimately show ?thesis
    by (simp add: tie_pages page_of_def pg_catalogs_render names_of_keys tie_menus
        tie_load base_compare_tie)
qed

end
